theory Spec2Isabelle
  imports Main "HOL-Library.Sublist"
begin

section \<open>Error reporting and exceptions\<close>

text \<open>
  Every failure of \<^verbatim>\<open>str.cpp\<close> and \<^verbatim>\<open>str.h\<close> goes through \<^verbatim>\<open>error(msg)\<close>, which throws
  an \<^verbatim>\<open>ErrorException\<close> carrying the message (the exception that \<^verbatim>\<open>String::is\<close> catches).
  The message of \<^verbatim>\<open>String::checkIndex\<close> is built from the operation name, the index and
  the legal range; it is kept structured. The two exceptions of the C++ standard library
  that \<^verbatim>\<open>std::stoll\<close> and \<^verbatim>\<open>std::stoull\<close> throw are separate constructors.
  \<^term>\<open>UndefinedRead\<close> is no exception: it marks a read outside the storage a pointer refers
  to, which C++ leaves undefined, so that no result rests on a value HOL leaves unspecified.
\<close>

datatype message = Msg string | IndexMsg string int int int

datatype exn = ErrorException message | StdInvalidArgument | StdOutOfRange | UndefinedRead

definition error :: "message \<Rightarrow> exn + 'a" where
  "error m = Inl (ErrorException m)"

section \<open>Characters and integers of the platform\<close>

text \<open>
  A \<^verbatim>\<open>char\<close> is one 8-bit code unit, here a \<^typ>\<open>char\<close>; \<^term>\<open>of_char\<close> reads it as a number
  in 0..255. Whether \<^verbatim>\<open>char\<close> is a signed type is left to the platform by C++ (it is signed
  under the x86 and x86-64 ABIs), so the conversion of a \<^verbatim>\<open>char\<close> to \<^verbatim>\<open>int\<close> takes
  the signedness as a parameter.
\<close>

definition char_to_int :: "bool \<Rightarrow> char \<Rightarrow> int" where
  "char_to_int char_signed c =
     (if char_signed \<and> 128 \<le> (of_char c :: nat) then int (of_char c) - 256
      else int (of_char c))"

text \<open>
  The conversions \<^verbatim>\<open>int(_data.length())\<close>, \<^verbatim>\<open>int(result)\<close> and the \<^verbatim>\<open>int\<close> returned by
  \<^verbatim>\<open>StringView::size\<close> narrow a \<^verbatim>\<open>size_t\<close> or \<^verbatim>\<open>ptrdiff_t\<close> to a 32-bit \<^verbatim>\<open>int\<close>: the value
  is reduced modulo \<open>2^32\<close> into the signed range.
\<close>

definition int_cast :: "int \<Rightarrow> int" where
  "int_cast n = (let m = n mod 2 ^ 32 in if m < 2 ^ 31 then m else m - 2 ^ 32)"

text \<open>
  The predicates and conversions of \<^verbatim>\<open><cctype>\<close> in the "C" locale (ASCII): a byte from
  0x80 on is in none of the classes, and \<^verbatim>\<open>tolower\<close> and \<^verbatim>\<open>toupper\<close> leave it as it is.
\<close>

definition isspace :: "char \<Rightarrow> bool" where
  "isspace c = (c = CHR '' '' \<or> (9 \<le> (of_char c :: nat) \<and> (of_char c :: nat) \<le> 13))"

definition isdigit :: "char \<Rightarrow> bool" where
  "isdigit c = (48 \<le> (of_char c :: nat) \<and> (of_char c :: nat) \<le> 57)"

definition isupper :: "char \<Rightarrow> bool" where
  "isupper c = (65 \<le> (of_char c :: nat) \<and> (of_char c :: nat) \<le> 90)"

definition islower :: "char \<Rightarrow> bool" where
  "islower c = (97 \<le> (of_char c :: nat) \<and> (of_char c :: nat) \<le> 122)"

definition isalnum :: "char \<Rightarrow> bool" where
  "isalnum c = (isdigit c \<or> isupper c \<or> islower c)"

definition tolower :: "char \<Rightarrow> char" where
  "tolower c = (if isupper c then char_of ((of_char c :: nat) + 32) else c)"

definition toupper :: "char \<Rightarrow> char" where
  "toupper c = (if islower c then char_of ((of_char c :: nat) - 32) else c)"

section \<open>The operations of std::string that the code calls\<close>

text \<open>
  \<^verbatim>\<open>std::string::find(s, pos, n)\<close>: the lowest position \<open>xpos \<ge> pos\<close> with
  \<open>xpos + n \<le> size()\<close> at which the \<open>n\<close> characters of \<open>s\<close> occur, \<^verbatim>\<open>npos\<close> (here
  \<^term>\<open>None\<close>) when there is none.
\<close>

function std_find :: "string \<Rightarrow> string \<Rightarrow> nat \<Rightarrow> nat option" where
  "std_find hay needle pos =
     (if length hay < pos + length needle then None
      else if take (length needle) (drop pos hay) = needle then Some pos
      else std_find hay needle (Suc pos))"
  by pat_completeness auto
termination
  by (relation "measure (\<lambda>(hay, needle, pos). Suc (length hay) - pos)") auto

declare std_find.simps [simp del]

text \<open>\<^verbatim>\<open>erase(pos, n)\<close> and \<^verbatim>\<open>replace(pos, n1, s, n2)\<close>, for \<open>pos \<le> size()\<close>.\<close>

definition std_erase :: "string \<Rightarrow> nat \<Rightarrow> nat \<Rightarrow> string" where
  "std_erase str pos n = take pos str @ drop (pos + n) str"

definition std_replace :: "string \<Rightarrow> nat \<Rightarrow> nat \<Rightarrow> string \<Rightarrow> string" where
  "std_replace str pos n1 w = take pos str @ w @ drop (pos + n1) str"

section \<open>The version counter\<close>

text \<open>
  Modelled from the spec: the class \<^verbatim>\<open>VersionTracker\<close> of \<^verbatim>\<open>collections.h\<close> (not part
  of the sources at hand). The spec describes a monotonically increasing counter that
  \<^verbatim>\<open>update()\<close> increments; its initial value is implementation-defined, here 0.
\<close>

type_synonym VersionTracker = nat

definition initial_version :: VersionTracker where
  "initial_version = 0"

definition update :: "VersionTracker \<Rightarrow> VersionTracker" where
  "update v = Suc v"

section \<open>String\<close>

text \<open>
  A \<^verbatim>\<open>String\<close> owns its bytes (\<^verbatim>\<open>_data\<close>) and a version counter (\<^verbatim>\<open>_version\<close>). The
  \<^verbatim>\<open>StringView\<close> arguments of its member functions are only read through
  \<^verbatim>\<open>begin()\<close> and \<^verbatim>\<open>size()\<close>; they are passed here as the viewed bytes.
\<close>

record String =
  data :: string
  version :: VersionTracker

definition updateVersion :: "String \<Rightarrow> String" where
  "updateVersion s = s\<lparr>version := update (version s)\<rparr>"

definition String_length :: "String \<Rightarrow> int" where
  "String_length s = int_cast (int (length (data s)))"

definition checkIndex :: "String \<Rightarrow> int \<Rightarrow> string \<Rightarrow> int \<Rightarrow> int \<Rightarrow> exn + unit" where
  "checkIndex s index why low high =
     (if index < low \<or> index > high then error (IndexMsg why index low high) else Inr ())"

definition String_find :: "String \<Rightarrow> string \<Rightarrow> int \<Rightarrow> exn + int" where
  "String_find s text startIndex =
     (if startIndex < 0
      then error (Msg ''String::find: Start index must be greater than or equal to zero.'')
      else (case std_find (data s) text (nat startIndex) of
              None \<Rightarrow> Inr (- 1)
            | Some result \<Rightarrow> Inr (int_cast (int result))))"

text \<open>
  The two \<^verbatim>\<open>operator[]\<close>. The const one returns the byte. The non-const one returns a
  \<^verbatim>\<open>char&\<close>, here the checked position in \<^verbatim>\<open>_data\<close>; the assignment \<^verbatim>\<open>t[i] = c\<close> then
  stores through that reference. Neither calls \<^verbatim>\<open>updateVersion\<close>.
\<close>

definition String_at :: "String \<Rightarrow> int \<Rightarrow> exn + char" where
  "String_at s index =
     (case checkIndex s index ''operator[]'' 0 (String_length s - 1) of
        Inl e \<Rightarrow> Inl e
      | Inr _ \<Rightarrow> if nat index < length (data s) then Inr (data s ! nat index)
                 else Inl UndefinedRead)"

definition String_ref :: "String \<Rightarrow> int \<Rightarrow> exn + nat" where
  "String_ref s index =
     (case checkIndex s index ''operator[]'' 0 (String_length s - 1) of
        Inl e \<Rightarrow> Inl e
      | Inr _ \<Rightarrow> if nat index < length (data s) then Inr (nat index)
                 else Inl UndefinedRead)"

definition store_ref :: "String \<Rightarrow> nat \<Rightarrow> char \<Rightarrow> String" where
  "store_ref s k c = s\<lparr>data := (data s)[k := c]\<rparr>"

definition String_assign_at :: "String \<Rightarrow> int \<Rightarrow> char \<Rightarrow> exn + String" where
  "String_assign_at s index c =
     (case String_ref s index of Inl e \<Rightarrow> Inl e | Inr k \<Rightarrow> Inr (store_ref s k c))"

text \<open>
  Case conversion: \<^verbatim>\<open>std::transform\<close> over \<^verbatim>\<open>_data\<close> in place, and nothing else.
\<close>

definition toLowerCase :: "String \<Rightarrow> String" where
  "toLowerCase s = s\<lparr>data := map tolower (data s)\<rparr>"

definition toUpperCase :: "String \<Rightarrow> String" where
  "toUpperCase s = s\<lparr>data := map toupper (data s)\<rparr>"

subsection \<open>Cursors\<close>

text \<open>
  Modelled from the spec: the class \<^verbatim>\<open>CheckedIterator\<close> of \<^verbatim>\<open>collections.h\<close> (not part
  of the sources at hand). \<^verbatim>\<open>String::begin\<close> and \<^verbatim>\<open>String::end\<close> hand it the version
  counter and a position; the spec binds a cursor to the value the counter had when the
  cursor was issued, and every use of the cursor first checks that the counter of the
  owning String still has that value.
\<close>

record Cursor =
  snapshot :: VersionTracker
  position :: nat

definition String_begin :: "String \<Rightarrow> Cursor" where
  "String_begin s = \<lparr>snapshot = version s, position = 0\<rparr>"

definition String_end :: "String \<Rightarrow> Cursor" where
  "String_end s = \<lparr>snapshot = version s, position = length (data s)\<rparr>"

definition cursor_valid :: "String \<Rightarrow> Cursor \<Rightarrow> bool" where
  "cursor_valid s c = (snapshot c = version s)"

section \<open>StringView\<close>

text \<open>
  A \<^verbatim>\<open>StringView\<close> is two pointers into storage it does not own. The storage is kept
  with the view, and the pointers are offsets into it: \<^verbatim>\<open>StringView(char)\<close> points into
  its own two-byte buffer, \<^verbatim>\<open>StringView(const char*)\<close> into the caller's NUL-terminated
  buffer (\<^term>\<open>None\<close> is the null pointer), \<^verbatim>\<open>StringView(const std::string&)\<close> and
  \<^verbatim>\<open>StringView(const String&)\<close> into the buffer of the string, which holds a NUL after
  the last character.
\<close>

record StringView =
  storage :: string
  vbegin :: nat
  vend :: nat

definition strlen :: "string \<Rightarrow> nat" where
  "strlen buf = length (takeWhile (\<lambda>c. c \<noteq> CHR 0x00) buf)"

definition StringView_char :: "char \<Rightarrow> StringView" where
  "StringView_char ch = \<lparr>storage = [ch, CHR 0x00], vbegin = 0, vend = 0 + 1\<rparr>"

definition StringView_cstr :: "string option \<Rightarrow> exn + StringView" where
  "StringView_cstr text =
     (case text of
        None \<Rightarrow> error (Msg ''Cannot treat a null pointer as a String.'')
      | Some buf \<Rightarrow> Inr \<lparr>storage = buf, vbegin = 0, vend = 0 + strlen buf\<rparr>)"

definition StringView_string :: "string \<Rightarrow> StringView" where
  "StringView_string text =
     \<lparr>storage = text @ [CHR 0x00], vbegin = 0, vend = 0 + length text\<rparr>"

definition StringView_String :: "String \<Rightarrow> StringView" where
  "StringView_String text =
     \<lparr>storage = data text @ [CHR 0x00], vbegin = 0, vend = 0 + length (data text)\<rparr>"

definition StringView_size :: "StringView \<Rightarrow> int" where
  "StringView_size v = int_cast (int (vend v) - int (vbegin v))"

definition StringView_at :: "StringView \<Rightarrow> int \<Rightarrow> exn + char" where
  "StringView_at v index =
     (if index < 0 \<or> index > StringView_size v
      then error (Msg ''String index out of range.'')
      else if vbegin v + nat index < length (storage v)
           then Inr (storage v ! (vbegin v + nat index))
           else Inl UndefinedRead)"

text \<open>The bytes a view denotes: the range from \<^verbatim>\<open>begin()\<close> up to \<^verbatim>\<open>end()\<close>.\<close>

definition view_bytes :: "StringView \<Rightarrow> string" where
  "view_bytes v = take (vend v - vbegin v) (drop (vbegin v) (storage v))"

section \<open>String: construction, editing, comparison and encoding\<close>

subsection \<open>Construction and append\<close>

text \<open>
  \<^verbatim>\<open>String()\<close>, \<^verbatim>\<open>String(StringView text)\<close> (a copy of the viewed bytes with a fresh version
  counter) and \<^verbatim>\<open>operator+=\<close>. Where the source compares \<^verbatim>\<open>text.size()\<close>, the \<^verbatim>\<open>int\<close> that
  \<^verbatim>\<open>StringView::size\<close> returns for the viewed bytes is \<^term>\<open>view_size\<close>; where it passes
  \<^verbatim>\<open>text.begin()\<close> and \<^verbatim>\<open>text.size()\<close> on to std::string, the whole view is meant.
\<close>

definition view_size :: "string \<Rightarrow> int" where
  "view_size text = int_cast (int (length text))"

definition String_empty :: String where
  "String_empty = \<lparr>data = [], version = initial_version\<rparr>"

definition String_of :: "string \<Rightarrow> String" where
  "String_of text = \<lparr>data = text, version = initial_version\<rparr>"

definition String_append :: "String \<Rightarrow> string \<Rightarrow> String" where
  "String_append s text = updateVersion (s\<lparr>data := data s @ text\<rparr>)"

subsection \<open>Split and join\<close>

text \<open>
  The \<^verbatim>\<open>while (true)\<close> loop of \<^verbatim>\<open>stringSplit\<close>, on the working copy \<^verbatim>\<open>str2\<close> and the
  \<^verbatim>\<open>result\<close> vector; it returns both when \<^verbatim>\<open>find\<close> reports \<^verbatim>\<open>npos\<close>. The loop need not
  end for every argument (an empty delimiter is found at position 0 for ever), so it is
  a partial function: \<^term>\<open>None\<close> stands for not returning.
\<close>

partial_function (option) split_loop ::
  "string \<Rightarrow> string \<Rightarrow> String list \<Rightarrow> (string \<times> String list) option" where
  "split_loop str2 delimiter result =
     (case std_find str2 delimiter 0 of
        None \<Rightarrow> Some (str2, result)
      | Some index \<Rightarrow>
          split_loop (std_erase str2 0 (index + length delimiter)) delimiter
            (if index \<noteq> 0 then result @ [String_of (take index (drop 0 str2))]
             else result))"

declare split_loop.simps [code]

definition stringSplit :: "string \<Rightarrow> string \<Rightarrow> (exn + String list) option" where
  "stringSplit str delimiter =
     (if view_size delimiter = 0
      then Some (error (Msg ''stringSplit: Delimiter cannot be the empty string.''))
      else (case split_loop str delimiter [] of
              None \<Rightarrow> None
            | Some (str2, result) \<Rightarrow>
                Some (Inr (if int_cast (int (length str2)) > 0
                           then result @ [String_of str2] else result))))"

definition String_split :: "String \<Rightarrow> string \<Rightarrow> (exn + String list) option" where
  "String_split s delimiters = stringSplit (data s) delimiters"

text \<open>
  The loop of \<^verbatim>\<open>String::join\<close> over the vector: \<^verbatim>\<open>i + 1 != v.size()\<close> holds exactly when
  elements remain after the current one.
\<close>

fun join_loop :: "String list \<Rightarrow> string \<Rightarrow> String \<Rightarrow> String" where
  "join_loop [] delimiter result = result"
| "join_loop (x # rest) delimiter result =
     join_loop rest delimiter
       (if rest \<noteq> [] then String_append (String_append result (data x)) delimiter
        else String_append result (data x))"

definition String_join :: "String list \<Rightarrow> string \<Rightarrow> String" where
  "String_join v delimiter = join_loop v delimiter String_empty"

subsection \<open>Replace all\<close>

text \<open>
  The \<^verbatim>\<open>for\<close> loop of \<^verbatim>\<open>String::replaceAll\<close>. \<^term>\<open>replace_loop\<close> is one pass through
  the body at a position \<open>i\<close> that \<^verbatim>\<open>find\<close> returned, followed by the next \<^verbatim>\<open>find\<close> and
  the loop test. As a loop it is a partial function, with \<^term>\<open>None\<close> for not returning.
\<close>

partial_function (option) replace_loop ::
  "String \<Rightarrow> string \<Rightarrow> string \<Rightarrow> nat \<Rightarrow> String option" where
  "replace_loop s text with i =
     (case std_find (std_replace (data s) i (length text) with) text (i + length with) of
        None \<Rightarrow>
          Some (updateVersion (s\<lparr>data := std_replace (data s) i (length text) with\<rparr>))
      | Some i' \<Rightarrow>
          replace_loop
            (updateVersion (s\<lparr>data := std_replace (data s) i (length text) with\<rparr>))
            text with i')"

declare replace_loop.simps [code]

definition String_replaceAll :: "String \<Rightarrow> string \<Rightarrow> string \<Rightarrow> (exn + String) option" where
  "String_replaceAll s text with =
     (if view_size text = 0
      then Some (error (Msg ''String::replaceAll: Cannot replace the empty string.''))
      else (case std_find (data s) text 0 of
              None \<Rightarrow> Some (Inr s)
            | Some i \<Rightarrow>
                (case replace_loop s text with i of
                   None \<Rightarrow> None
                 | Some s' \<Rightarrow> Some (Inr s'))))"

subsection \<open>Trimming\<close>

text \<open>
  \<^verbatim>\<open>trimStartInPlace\<close> counts the leading whitespace (\<^verbatim>\<open>start\<close>) and erases it when there
  is any; \<^verbatim>\<open>trimEndInPlace\<close> moves \<^verbatim>\<open>finish\<close> down over the trailing whitespace and
  erases from there. Each member function then updates the version, whether or not
  anything was erased.
\<close>

definition trimStartInPlace :: "string \<Rightarrow> string" where
  "trimStartInPlace str =
     (let start = length (takeWhile isspace str)
      in if start > 0 then std_erase str 0 start else str)"

definition trimEndInPlace :: "string \<Rightarrow> string" where
  "trimEndInPlace str =
     (let end = length str; finish = end - length (takeWhile isspace (rev str))
      in if finish < end then std_erase str finish (end - finish) else str)"

definition trimInPlace :: "string \<Rightarrow> string" where
  "trimInPlace str = trimStartInPlace (trimEndInPlace str)"

definition trimFront :: "String \<Rightarrow> String" where
  "trimFront s = updateVersion (s\<lparr>data := trimStartInPlace (data s)\<rparr>)"

definition trimBack :: "String \<Rightarrow> String" where
  "trimBack s = updateVersion (s\<lparr>data := trimEndInPlace (data s)\<rparr>)"

definition trim :: "String \<Rightarrow> String" where
  "trim s = updateVersion (s\<lparr>data := trimInPlace (data s)\<rparr>)"

definition trimmed :: "String \<Rightarrow> String" where
  "trimmed s = trim s"

subsection \<open>Relational operators\<close>

text \<open>
  \<^verbatim>\<open>std::lexicographical_compare\<close> over two ranges of \<^verbatim>\<open>char\<close>, comparing with \<^verbatim>\<open><\<close> on
  \<^verbatim>\<open>char\<close>; \<open>sg\<close> says whether \<^verbatim>\<open>char\<close> is signed.
\<close>

fun lexicographical_compare :: "bool \<Rightarrow> string \<Rightarrow> string \<Rightarrow> bool" where
  "lexicographical_compare sg (x # xs) (y # ys) =
     (if char_to_int sg x < char_to_int sg y then True
      else if char_to_int sg y < char_to_int sg x then False
      else lexicographical_compare sg xs ys)"
| "lexicographical_compare sg [] ys = (ys \<noteq> [])"
| "lexicographical_compare sg xs [] = False"

text \<open>The member \<^verbatim>\<open>String::operator<\<close>.\<close>

definition String_less :: "bool \<Rightarrow> String \<Rightarrow> string \<Rightarrow> bool" where
  "String_less sg this lhs = lexicographical_compare sg (data this) lhs"

text \<open>
  The member \<^verbatim>\<open>String::operator>\<close> returns \<^verbatim>\<open>lhs < StringView(*this)\<close>. Both operands are
  StringViews. StringView has no \<^verbatim>\<open>operator<\<close> of its own, and a member operator of String
  is no candidate for a left operand that is not a String; the one viable candidate is the
  global template \<^verbatim>\<open>operator<(const Text& lhs, const String& rhs)\<close> with \<^verbatim>\<open>Text = StringView\<close>,
  whose second argument is a temporary String built from the view by \<^verbatim>\<open>String(StringView)\<close>.
  The body of that template is \<^verbatim>\<open>return rhs > lhs\<close>: the member \<^verbatim>\<open>operator>\<close> again, on the
  temporary. The two functions call each other; \<^term>\<open>String_greater\<close> is the member with
  the call of the global template unfolded, a partial function in which \<^term>\<open>None\<close> stands
  for not returning, and \<^term>\<open>global_less\<close> is the template.
\<close>

partial_function (option) String_greater :: "String \<Rightarrow> string \<Rightarrow> bool option" where
  "String_greater this lhs =
     String_greater (String_of (view_bytes (StringView_String this))) lhs"

definition global_less :: "string \<Rightarrow> String \<Rightarrow> bool option" where
  "global_less lhs rhs = String_greater rhs lhs"

text \<open>
  The other members: \<^verbatim>\<open>operator<=\<close> is \<^verbatim>\<open>!(lhs < StringView(*this))\<close>, through the same global
  template; \<^verbatim>\<open>operator>=\<close> is \<^verbatim>\<open>!(*this < lhs)\<close>.
\<close>

definition String_less_eq :: "String \<Rightarrow> string \<Rightarrow> bool option" where
  "String_less_eq this lhs =
     map_option Not (global_less lhs (String_of (view_bytes (StringView_String this))))"

definition String_greater_eq :: "bool \<Rightarrow> String \<Rightarrow> string \<Rightarrow> bool" where
  "String_greater_eq sg this lhs = (\<not> String_less sg this lhs)"

text \<open>
  The global operators with the String on the right: \<^verbatim>\<open><=\<close> returns \<^verbatim>\<open>rhs >= lhs\<close>,
  \<^verbatim>\<open>>=\<close> returns \<^verbatim>\<open>rhs <= lhs\<close>, and \<^verbatim>\<open>>\<close> returns \<^verbatim>\<open>rhs > lhs\<close>, as \<^verbatim>\<open><\<close> does.
\<close>

definition global_less_eq :: "bool \<Rightarrow> string \<Rightarrow> String \<Rightarrow> bool" where
  "global_less_eq sg lhs rhs = String_greater_eq sg rhs lhs"

definition global_greater_eq :: "string \<Rightarrow> String \<Rightarrow> bool option" where
  "global_greater_eq lhs rhs = String_less_eq rhs lhs"

definition global_greater :: "string \<Rightarrow> String \<Rightarrow> bool option" where
  "global_greater lhs rhs = String_greater rhs lhs"

subsection \<open>URL encoding\<close>

text \<open>
  Writing an \<^verbatim>\<open>int\<close> to a stream in \<^verbatim>\<open>hex\<close> mode prints the value converted to
  \<^verbatim>\<open>unsigned int\<close>, so a negative value appears as its 32-bit two's complement;
  \<^verbatim>\<open>uppercase\<close> selects the digits \<open>A\<close> to \<open>F\<close>, and \<^verbatim>\<open>setw\<close> with \<^verbatim>\<open>setfill('0')\<close> pads
  on the left up to the width and never cuts.
\<close>

definition hex_digit :: "int \<Rightarrow> char" where
  "hex_digit d = (if d < 10 then char_of (48 + d) else char_of (55 + d))"

function hex_digits :: "int \<Rightarrow> string" where
  "hex_digits n = (if n < 16 then [hex_digit n] else hex_digits (n div 16) @ [hex_digit (n mod 16)])"
  by pat_completeness auto
termination
  by (relation "measure nat") auto

declare hex_digits.simps [simp del]

definition put_hex_int :: "nat \<Rightarrow> int \<Rightarrow> string" where
  "put_hex_int width v =
     (let digits = hex_digits (if v < 0 then v + 2 ^ 32 else v)
      in replicate (width - length digits) CHR ''0'' @ digits)"

text \<open>
  The loop of \<^verbatim>\<open>String::urlEncoded\<close> over the bytes, appending to the stream \<^verbatim>\<open>escaped\<close>.
  \<^verbatim>\<open>int(c)\<close> is the \<^verbatim>\<open>char\<close> converted to \<^verbatim>\<open>int\<close>, which depends on the signedness of
  \<^verbatim>\<open>char\<close>.
\<close>

fun urlEncoded_loop :: "bool \<Rightarrow> string \<Rightarrow> string \<Rightarrow> string" where
  "urlEncoded_loop sg [] escaped = escaped"
| "urlEncoded_loop sg (c # rest) escaped =
     urlEncoded_loop sg rest
       (if isalnum c \<or> c = CHR ''-'' \<or> c = CHR ''_'' \<or> c = CHR ''.'' \<or> c = CHR ''~''
           \<or> c = CHR ''*''
        then escaped @ [c]
        else if c = CHR '' '' then escaped @ ''+''
        else escaped @ ''%'' @ put_hex_int 2 (char_to_int sg c))"

definition String_urlEncoded :: "bool \<Rightarrow> String \<Rightarrow> String" where
  "String_urlEncoded sg s = String_of (urlEncoded_loop sg (data s) [])"

section \<open>Conversion to integers with a radix\<close>

subsection \<open>std::stoll and std::stoull\<close>

text \<open>
  \<^verbatim>\<open>std::stoll(str, nullptr, base)\<close> and \<^verbatim>\<open>std::stoull(str, nullptr, base)\<close> run \<^verbatim>\<open>strtoll\<close>
  and \<^verbatim>\<open>strtoull\<close> on the characters of \<^verbatim>\<open>str\<close>: leading whitespace is skipped, one sign
  is optional, for base 16 a prefix \<open>0x\<close> or \<open>0X\<close> before a hexadecimal digit is
  skipped, and then the longest run of digits of the base is read. Whatever follows the
  digits is left where it is: with \<^verbatim>\<open>nullptr\<close> for the position, the caller is not told how
  far the scan went. No digit at all throws \<^verbatim>\<open>std::invalid_argument\<close>, a value outside
  the range of the result type throws \<^verbatim>\<open>std::out_of_range\<close>; \<^verbatim>\<open>strtoull\<close> negates a value
  with a minus sign in unsigned arithmetic.
\<close>

definition digit_value :: "char \<Rightarrow> int option" where
  "digit_value c =
     (if isdigit c then Some (of_char c - 48)
      else if isupper c then Some (of_char c - 55)
      else if islower c then Some (of_char c - 87)
      else None)"

definition is_digit_of :: "int \<Rightarrow> char \<Rightarrow> bool" where
  "is_digit_of base c = (case digit_value c of None \<Rightarrow> False | Some d \<Rightarrow> d < base)"

fun read_digits :: "int \<Rightarrow> string \<Rightarrow> int \<Rightarrow> nat \<Rightarrow> int \<times> nat" where
  "read_digits base [] acc count = (acc, count)"
| "read_digits base (c # cs) acc count =
     (case digit_value c of
        None \<Rightarrow> (acc, count)
      | Some d \<Rightarrow> if d < base then read_digits base cs (acc * base + d) (Suc count)
                  else (acc, count))"

fun skip_prefix :: "int \<Rightarrow> string \<Rightarrow> string" where
  "skip_prefix base (z # x # h # rest) =
     (if base = 16 \<and> z = CHR ''0'' \<and> (x = CHR ''x'' \<or> x = CHR ''X'') \<and> is_digit_of 16 h
      then h # rest else z # x # h # rest)"
| "skip_prefix base str = str"

fun take_sign :: "string \<Rightarrow> bool \<times> string" where
  "take_sign (c # cs) =
     (if c = CHR ''-'' then (True, cs) else if c = CHR ''+'' then (False, cs)
      else (False, c # cs))"
| "take_sign [] = (False, [])"

definition scan_integer :: "string \<Rightarrow> int \<Rightarrow> (bool \<times> int) option" where
  "scan_integer str base =
     (case take_sign (dropWhile isspace str) of
        (negative, rest) \<Rightarrow>
          (case read_digits base (skip_prefix base rest) 0 0 of
             (magnitude, count) \<Rightarrow> if count = 0 then None else Some (negative, magnitude)))"

definition stoll :: "string \<Rightarrow> int \<Rightarrow> exn + int" where
  "stoll str base =
     (case scan_integer str base of
        None \<Rightarrow> Inl StdInvalidArgument
      | Some (negative, magnitude) \<Rightarrow>
          (let result = (if negative then - magnitude else magnitude)
           in if result < - (2 ^ 63) \<or> 2 ^ 63 - 1 < result then Inl StdOutOfRange
              else Inr result))"

definition stoull :: "string \<Rightarrow> int \<Rightarrow> exn + int" where
  "stoull str base =
     (case scan_integer str base of
        None \<Rightarrow> Inl StdInvalidArgument
      | Some (negative, magnitude) \<Rightarrow>
          if 2 ^ 64 - 1 < magnitude then Inl StdOutOfRange
          else Inr (if negative then (- magnitude) mod 2 ^ 64 else magnitude))"

subsection \<open>Integral target types\<close>

text \<open>
  The target type \<open>T\<close> of \<^verbatim>\<open>to<T>\<close> and \<^verbatim>\<open>is<T>\<close>, as far as the conversion uses it: whether
  it is unsigned, and its width, which gives \<^verbatim>\<open>numeric_limits<T>::min()\<close> and \<^verbatim>\<open>max()\<close>
  (\<^verbatim>\<open>bool\<close> is an unsigned integral type with the limits 0 and 1, that is of width 1).
\<close>

datatype integral = SignedT nat | UnsignedT nat

fun numeric_min :: "integral \<Rightarrow> int" where
  "numeric_min (SignedT w) = - (2 ^ (w - 1))"
| "numeric_min (UnsignedT w) = 0"

fun numeric_max :: "integral \<Rightarrow> int" where
  "numeric_max (SignedT w) = 2 ^ (w - 1) - 1"
| "numeric_max (UnsignedT w) = 2 ^ w - 1"

subsection \<open>radixConvert, radixTo, to and is\<close>

text \<open>
  \<^verbatim>\<open>radixConvert\<close> runs the converter inside \<^verbatim>\<open>try\<close> and reports everything its handler
  for \<^verbatim>\<open>std::exception\<close> catches as the conversion error. Whether \<^verbatim>\<open>ErrorException\<close>
  (declared in \<^verbatim>\<open>error.h\<close>, not part of the sources at hand) derives from
  \<^verbatim>\<open>std::exception\<close> decides whether the handler also catches the errors raised inside
  the \<^verbatim>\<open>try\<close> block; it is the parameter \<open>derived\<close>.
\<close>

definition conversion_failed :: message where
  "conversion_failed = Msg ''String::to: Could not convert string to that type.''"

fun is_std_exception :: "bool \<Rightarrow> exn \<Rightarrow> bool" where
  "is_std_exception derived (ErrorException m) = derived"
| "is_std_exception derived StdInvalidArgument = True"
| "is_std_exception derived StdOutOfRange = True"
| "is_std_exception derived UndefinedRead = False"

definition radixConvert :: "bool \<Rightarrow> integral \<Rightarrow> exn + int \<Rightarrow> exn + int" where
  "radixConvert derived T converter =
     (case (case converter of
              Inl e \<Rightarrow> Inl e
            | Inr result \<Rightarrow>
                if numeric_min T \<le> result \<and> result \<le> numeric_max T then Inr result
                else error conversion_failed) of
        Inl e \<Rightarrow> if is_std_exception derived e then error conversion_failed else Inl e
      | Inr value \<Rightarrow> Inr value)"

fun radixTo :: "bool \<Rightarrow> integral \<Rightarrow> string \<Rightarrow> int \<Rightarrow> exn + int" where
  "radixTo derived (SignedT w) str radix = radixConvert derived (SignedT w) (stoll str radix)"
| "radixTo derived (UnsignedT w) str radix =
     radixConvert derived (UnsignedT w)
       (case str of
          [] \<Rightarrow> error (Msg ''Unsigned values can't be negative.'')
        | c # cs \<Rightarrow>
            if c = CHR ''-'' then error (Msg ''Unsigned values can't be negative.'')
            else stoull str radix)"

definition String_to :: "bool \<Rightarrow> integral \<Rightarrow> String \<Rightarrow> int \<Rightarrow> exn + int" where
  "String_to derived T str radix =
     (if radix < 2 \<or> radix > 36
      then error (Msg ''String::to: Radix must be between 2 and 36, inclusive.'')
      else radixTo derived T (data (trimmed str)) radix)"

definition String_is :: "bool \<Rightarrow> integral \<Rightarrow> String \<Rightarrow> int \<Rightarrow> exn + bool" where
  "String_is derived T str radix =
     (if radix < 2 \<or> radix > 36
      then error (Msg ''String::is: Radix must be between 2 and 36, inclusive.'')
      else (case String_to derived T str radix of
              Inr value \<Rightarrow> Inr True
            | Inl (ErrorException m) \<Rightarrow> Inr False
            | Inl e \<Rightarrow> Inl e))"

section \<open>Facts about the platform integers and std::string\<close>

lemma int_cast_small: "0 \<le> n \<Longrightarrow> n < 2 ^ 31 \<Longrightarrow> int_cast n = n"
  by (simp add: int_cast_def)

lemma int_cast_nat_small: "n < 2 ^ 31 \<Longrightarrow> int_cast (int n) = int n"
proof -
  assume "n < 2 ^ 31"
  then have "int n < 2 ^ 31" by (metis of_nat_less_iff of_nat_numeral of_nat_power)
  then show ?thesis by (simp add: int_cast_small)
qed

lemma int_cast_le: "0 \<le> n \<Longrightarrow> int_cast n \<le> n"
proof -
  assume "0 \<le> n"
  then have "n mod 2 ^ 32 \<le> n" by (rule zmod_le_nonneg_dividend)
  then show ?thesis by (simp add: int_cast_def Let_def)
qed

lemma length_fits: "String_length s \<le> int (length (data s))"
  by (simp add: String_length_def int_cast_le)

lemma std_find_past_end: "length hay < pos \<Longrightarrow> std_find hay needle pos = None"
  by (subst std_find.simps) simp

lemma std_find_Some:
  "std_find hay needle pos = Some i \<Longrightarrow>
     pos \<le> i \<and> i + length needle \<le> length hay \<and> take (length needle) (drop i hay) = needle"
proof (induction hay needle pos rule: std_find.induct)
  case (1 hay needle pos)
  from "1.prems" have nf: "\<not> length hay < pos + length needle"
    by (subst (asm) std_find.simps) (simp split: if_splits)
  show ?case
  proof (cases "take (length needle) (drop pos hay) = needle")
    case True
    with "1.prems" nf have "i = pos" by (subst (asm) std_find.simps) simp
    with True nf show ?thesis by simp
  next
    case False
    with "1.prems" nf have "std_find hay needle (Suc pos) = Some i"
      by (subst (asm) std_find.simps) simp
    with "1.IH" [OF nf False] show ?thesis by simp
  qed
qed

lemma std_find_split:
  assumes "std_find s d 0 = Some i"
  shows "s = take i s @ d @ drop (i + length d) s"
proof -
  from std_find_Some [OF assms] have "take (length d) (drop i s) = d" by simp
  then have "drop i s = d @ drop (length d) (drop i s)"
    by (metis append_take_drop_id)
  then have "drop i s = d @ drop (i + length d) s" by (simp add: add.commute)
  then show ?thesis by (metis append_take_drop_id)
qed

lemma std_find_0_prefix:
  assumes "std_find s d 0 = Some 0"
  shows "prefix d s"
proof -
  from std_find_split [OF assms] have "s = d @ drop (length d) s" by simp
  then show ?thesis by (metis prefixI)
qed

lemma split_loop_pieces:
  assumes "d \<noteq> []"
  shows "\<not> prefix d s \<Longrightarrow> \<not> suffix d s \<Longrightarrow> \<not> sublist (d @ d) s \<Longrightarrow>
     \<exists>r ps. split_loop s d acc = Some (r, acc @ map String_of ps)
          \<and> s = concat (map (\<lambda>p. p @ d) ps) @ r \<and> (s = [] \<or> r \<noteq> [])"
proof (induction s arbitrary: acc rule: length_induct)
  case (1 s)
  show ?case
  proof (cases "std_find s d 0")
    case None
    then have "split_loop s d acc = Some (s, acc @ map String_of [])"
      by (subst split_loop.simps) simp
    then show ?thesis by fastforce
  next
    case (Some i)
    let ?rest = "drop (i + length d) s"
    from std_find_split [OF Some] have dec: "s = take i s @ d @ ?rest" .
    have i0: "i \<noteq> 0"
    proof
      assume "i = 0"
      with Some have "std_find s d 0 = Some 0" by simp
      then have "prefix d s" by (rule std_find_0_prefix)
      with "1.prems"(1) show False by simp
    qed
    from std_find_Some [OF Some] have bound: "i + length d \<le> length s" by simp
    have shorter: "length ?rest < length s" using assms bound by (cases d) auto
    have p: "\<not> prefix d ?rest"
    proof
      assume "prefix d ?rest"
      then obtain z where "?rest = d @ z" by (auto simp: prefix_def)
      with dec have "s = take i s @ (d @ d) @ z" by simp
      then have "sublist (d @ d) s" unfolding sublist_def by blast
      with "1.prems"(3) show False by simp
    qed
    have q: "\<not> suffix d ?rest"
    proof
      assume "suffix d ?rest"
      then obtain z where "?rest = z @ d" by (auto simp: suffix_def)
      with dec have "s = (take i s @ d @ z) @ d" by simp
      then have "suffix d s" by (rule suffixI)
      with "1.prems"(2) show False by simp
    qed
    have r: "\<not> sublist (d @ d) ?rest"
    proof
      assume "sublist (d @ d) ?rest"
      then obtain y z where "?rest = y @ (d @ d) @ z" unfolding sublist_def by blast
      with dec have "s = (take i s @ d @ y) @ (d @ d) @ z" by simp
      then have "sublist (d @ d) s" unfolding sublist_def by blast
      with "1.prems"(3) show False by simp
    qed
    have ne: "?rest \<noteq> []"
    proof
      assume e: "?rest = []"
      with dec have "s = take i s @ d" by simp
      then have "suffix d s" by (metis suffixI)
      with "1.prems"(2) show False by simp
    qed
    from "1.IH" shorter p q r obtain r' ps' where
      ih: "split_loop ?rest d (acc @ [String_of (take i s)])
             = Some (r', (acc @ [String_of (take i s)]) @ map String_of ps')"
      and cat: "?rest = concat (map (\<lambda>p. p @ d) ps') @ r'" and rne: "?rest = [] \<or> r' \<noteq> []"
      by blast
    have step: "split_loop s d acc = split_loop ?rest d (acc @ [String_of (take i s)])"
      using Some i0 by (subst split_loop.simps) (simp add: std_erase_def)
    have "split_loop s d acc = Some (r', acc @ map String_of (take i s # ps'))"
      using step ih by simp
    moreover have "s = concat (map (\<lambda>p. p @ d) (take i s # ps')) @ r'"
      using dec cat by simp
    moreover have "r' \<noteq> []" using rne ne by simp
    ultimately show ?thesis by blast
  qed
qed

lemma data_String_append: "data (String_append s t) = data s @ t"
  by (simp add: String_append_def updateVersion_def)

lemma join_loop_data:
  "data (join_loop (map String_of (ps @ [r])) d res)
     = data res @ concat (map (\<lambda>p. p @ d) ps) @ r"
  by (induction ps arbitrary: res) (simp_all add: data_String_append String_of_def)

lemma replace_loop_returns:
  assumes "text \<noteq> []"
  shows "i + length text \<le> length (data s) \<Longrightarrow> \<exists>r. replace_loop s text w i = Some r"
proof (induction "length (data s) - i" arbitrary: s i rule: less_induct)
  case less
  let ?d = "std_replace (data s) i (length text) w"
  let ?s = "updateVersion (s\<lparr>data := ?d\<rparr>)"
  show ?case
  proof (cases "std_find ?d text (i + length w)")
    case None
    then show ?thesis by (subst replace_loop.simps) simp
  next
    case (Some j)
    from std_find_Some [OF Some]
    have lo: "i + length w \<le> j" and hi: "j + length text \<le> length ?d" by simp_all
    have len: "length ?d = length (data s) - length text + length w"
      using less.prems by (simp add: std_replace_def)
    have pos: "0 < length text" using assms by simp
    have d: "data ?s = ?d" by (simp add: updateVersion_def)
    have "length (data ?s) - j < length (data s) - i"
      using lo hi len pos less.prems unfolding d by linarith
    moreover have "j + length text \<le> length (data ?s)" using hi unfolding d .
    ultimately obtain r where "replace_loop ?s text w j = Some r"
      using less.hyps by blast
    then show ?thesis using Some by (subst replace_loop.simps) simp
  qed
qed

lemma replaceAll_returns:
  assumes "text \<noteq> []" and "length text < 2 ^ 31"
  shows "\<exists>r. String_replaceAll s text w = Some (Inr r)"
proof -
  from assms have sz: "view_size text \<noteq> 0"
    by (simp add: view_size_def int_cast_nat_small)
  show ?thesis
  proof (cases "std_find (data s) text 0")
    case None
    with sz show ?thesis by (simp add: String_replaceAll_def)
  next
    case (Some i)
    from std_find_Some [OF Some] have "i + length text \<le> length (data s)" by simp
    from replace_loop_returns [OF assms(1) this] obtain r
      where "replace_loop s text w i = Some r" by blast
    with sz Some show ?thesis by (simp add: String_replaceAll_def)
  qed
qed

lemma String_greater_never: "String_greater s x = None"
proof (cases "String_greater s x")
  case None
  then show ?thesis .
next
  case (Some b)
  have "String_greater s x = Some b \<Longrightarrow> False"
    by (rule String_greater.raw_induct [where P = "\<lambda>_ _ _. False"])
  with Some show ?thesis by simp
qed

lemma relational_never_return:
  "String_greater s x = None \<and> global_less x s = None \<and> global_greater x s = None
   \<and> String_less_eq s x = None \<and> global_greater_eq x s = None"
  by (simp add: global_less_def global_greater_def String_less_eq_def global_greater_eq_def
      String_greater_never)

lemma hex_digit_0: "hex_digit 0 = CHR ''0''"
  by code_simp

lemma put_hex_int_byte:
  assumes "0 \<le> v" and "v < 256"
  shows "put_hex_int 2 v = [hex_digit (v div 16), hex_digit (v mod 16)]"
proof (cases "v < 16")
  case True
  then have "hex_digits v = [hex_digit v]" by (subst hex_digits.simps) simp
  with True assms show ?thesis by (simp add: put_hex_int_def hex_digit_0)
next
  case False
  from assms have "v div 16 < 16" by simp
  then have "hex_digits (v div 16) = [hex_digit (v div 16)]"
    by (subst hex_digits.simps) simp
  with False have "hex_digits v = [hex_digit (v div 16), hex_digit (v mod 16)]"
    by (subst hex_digits.simps) simp
  with assms show ?thesis by (simp add: put_hex_int_def)
qed

lemma urlEncoded_two_digits:
  assumes "\<not> sg \<or> (of_char c :: nat) < 128"
    and "\<not> isalnum c" and "c \<notin> {CHR ''-'', CHR ''_'', CHR ''.'', CHR ''~'', CHR ''*'', CHR '' ''}"
  shows "urlEncoded_loop sg [c] []
           = [CHR ''%'', hex_digit (int (of_char c) div 16), hex_digit (int (of_char c) mod 16)]"
proof -
  from assms(1) have v: "char_to_int sg c = int (of_char c)"
    by (auto simp: char_to_int_def)
  have "(of_char c :: nat) < 256" by simp
  then have "int (of_char c) < 256" by linarith
  then have "put_hex_int 2 (int (of_char c))
               = [hex_digit (int (of_char c) div 16), hex_digit (int (of_char c) mod 16)]"
    by (simp add: put_hex_int_byte)
  with assms(2,3) v show ?thesis by simp
qed

lemma radixConvert_raises:
  assumes "radixConvert derived T converter = Inl e" and "converter \<noteq> Inl UndefinedRead"
  shows "\<exists>m. e = ErrorException m"
proof (cases converter)
  case (Inl x)
  with assms show ?thesis
    by (cases x) (auto simp: radixConvert_def error_def split: if_splits)
next
  case (Inr result)
  with assms show ?thesis
    by (auto simp: radixConvert_def error_def split: if_splits)
qed

lemma stoll_defined: "stoll str radix \<noteq> Inl UndefinedRead"
  by (simp add: stoll_def Let_def split: option.split prod.split)

lemma stoull_defined: "stoull str radix \<noteq> Inl UndefinedRead"
  by (simp add: stoull_def split: option.split prod.split)

lemma radixTo_raises:
  assumes "radixTo derived T str radix = Inl e"
  shows "\<exists>m. e = ErrorException m"
proof (cases T)
  case (SignedT w)
  with assms show ?thesis
    using radixConvert_raises [OF _ stoll_defined] by simp
next
  case (UnsignedT w)
  let ?conv = "case str of
          [] \<Rightarrow> error (Msg ''Unsigned values can't be negative.'')
        | c # cs \<Rightarrow>
            if c = CHR ''-'' then error (Msg ''Unsigned values can't be negative.'')
            else stoull str radix"
  have "?conv \<noteq> Inl UndefinedRead"
    by (simp add: error_def stoull_defined split: list.split)
  moreover from assms UnsignedT have "radixConvert derived (UnsignedT w) ?conv = Inl e"
    by simp
  ultimately show ?thesis by (rule radixConvert_raises [rotated])
qed

lemma String_to_raises:
  assumes "String_to derived T s radix = Inl e"
  shows "\<exists>m. e = ErrorException m"
  using assms radixTo_raises
  by (auto simp: String_to_def error_def split: if_splits)

lemma view_constructors_well_formed:
  "vbegin (StringView_char ch) \<le> vend (StringView_char ch)
   \<and> vend (StringView_char ch) < length (storage (StringView_char ch))
   \<and> vbegin (StringView_string text) \<le> vend (StringView_string text)
   \<and> vend (StringView_string text) < length (storage (StringView_string text))
   \<and> vbegin (StringView_String s) \<le> vend (StringView_String s)
   \<and> vend (StringView_String s) < length (storage (StringView_String s))
   \<and> storage (StringView_char ch) ! vend (StringView_char ch) = CHR 0x00
   \<and> storage (StringView_string text) ! vend (StringView_string text) = CHR 0x00
   \<and> storage (StringView_String s) ! vend (StringView_String s) = CHR 0x00"
  by (simp add: StringView_char_def StringView_string_def StringView_String_def)

lemma strlen_less: "CHR 0x00 \<in> set buf \<Longrightarrow> strlen buf < length buf"
  unfolding strlen_def by (induction buf) auto

lemma view_of_C_string_well_formed:
  assumes "CHR 0x00 \<in> set buf"
  shows "\<exists>v. StringView_cstr (Some buf) = Inr v \<and> vbegin v \<le> vend v
             \<and> vend v < length (storage v) \<and> storage v ! vend v = CHR 0x00"
proof -
  from strlen_less [OF assms]
  have "length (takeWhile (\<lambda>c. c \<noteq> CHR 0x00) buf) < length buf" by (simp add: strlen_def)
  then have "\<not> (buf ! length (takeWhile (\<lambda>c. c \<noteq> CHR 0x00) buf) \<noteq> CHR 0x00)"
    by (rule nth_length_takeWhile)
  with strlen_less [OF assms] show ?thesis by (simp add: StringView_cstr_def strlen_def)
qed

lemma view_bytes_of_String: "view_bytes (StringView_String s) = data s"
  by (simp add: view_bytes_def StringView_String_def)

section \<open>Searching from a start index\<close>

text \<open>
  C10. For a String \<open>s\<close> (shorter than \<open>2^31\<close> bytes, so that \<^verbatim>\<open>length()\<close> is its size), any
  text \<open>t\<close> and a start index \<open>i > s.length()\<close>, \<^verbatim>\<open>s.find(t, i)\<close> returns the sentinel -1
  and does not raise; \<^verbatim>\<open>find\<close> raises exactly for a negative start index.
\<close>

theorem find_past_length:
  assumes "length (data s) < 2 ^ 31" and "String_length s < i"
  shows "String_find s t i = Inr (- 1) \<and> (\<forall>j. isl (String_find s t j) \<longleftrightarrow> j < 0)"
proof -
  from assms have "int (length (data s)) < i"
    by (simp add: String_length_def int_cast_nat_small)
  then have "0 \<le> i" and "length (data s) < nat i" by linarith+
  then have "String_find s t i = Inr (- 1)"
    by (simp add: String_find_def std_find_past_end)
  moreover have "isl (String_find s t j) \<longleftrightarrow> j < 0" for j
    by (simp add: String_find_def error_def split: option.split)
  ultimately show ?thesis by blast
qed

theorem find_past_length_witness:
  "String_length \<lparr>data = ''abc'', version = 0\<rparr> < 4
   \<and> String_find \<lparr>data = ''abc'', version = 0\<rparr> ''b'' 4 = Inr (- 1)
   \<and> String_find \<lparr>data = ''abc'', version = 0\<rparr> '''' 4 = Inr (- 1)"
proof -
  have l: "length (data \<lparr>data = ''abc'', version = 0\<rparr>) < 2 ^ 31" by simp
  have i: "String_length \<lparr>data = ''abc'', version = 0\<rparr> < 4"
    by (simp add: String_length_def int_cast_def)
  show ?thesis
    using find_past_length [OF l i, of "''b''"] find_past_length [OF l i, of "''''"] i
    by simp
qed

section \<open>Case conversion and the version counter\<close>

text \<open>
  C1, as the code has it. \<^verbatim>\<open>toLowerCase()\<close> and \<^verbatim>\<open>toUpperCase()\<close> map every byte through
  \<^verbatim>\<open>tolower\<close> and \<^verbatim>\<open>toupper\<close> in place and leave the version counter as it was: a cursor
  is valid after the call exactly when it was valid before it.
\<close>

theorem case_conversion_keeps_version:
  "version (toLowerCase s) = version s \<and> version (toUpperCase s) = version s
   \<and> data (toLowerCase s) = map tolower (data s)
   \<and> data (toUpperCase s) = map toupper (data s)
   \<and> cursor_valid (toLowerCase s) c = cursor_valid s c
   \<and> cursor_valid (toUpperCase s) c = cursor_valid s c"
  by (simp add: toLowerCase_def toUpperCase_def cursor_valid_def)

text \<open>
  C1 as stated fails: on the String \<open>Ab\<close> neither conversion moves the version counter
  to its next value, although \<^verbatim>\<open>toLowerCase()\<close> changes a byte, and the cursor that
  \<^verbatim>\<open>begin()\<close> issued before the call is still valid after it.
\<close>

theorem case_conversion_counterexample:
  "version (toLowerCase \<lparr>data = ''Ab'', version = 0\<rparr>)
     \<noteq> update (version \<lparr>data = ''Ab'', version = 0\<rparr>)
   \<and> version (toUpperCase \<lparr>data = ''Ab'', version = 0\<rparr>)
     \<noteq> update (version \<lparr>data = ''Ab'', version = 0\<rparr>)
   \<and> data (toLowerCase \<lparr>data = ''Ab'', version = 0\<rparr>) = ''ab''
   \<and> cursor_valid (toLowerCase \<lparr>data = ''Ab'', version = 0\<rparr>)
        (String_begin \<lparr>data = ''Ab'', version = 0\<rparr>)"
  by code_simp

section \<open>Indexed write and read\<close>

text \<open>
  C5, as the code has it. For a valid index \<open>0 \<le> i < length()\<close>, the write
  \<^verbatim>\<open>t[i] = c\<close> succeeds, reading \<^verbatim>\<open>t[i]\<close> afterwards yields \<open>c\<close>, and the version counter
  is the same before and after the write.
\<close>

theorem indexed_write_then_read:
  assumes "0 \<le> i" and "i < String_length t"
  shows "\<exists>t'. String_assign_at t i c = Inr t' \<and> String_at t' i = Inr c
              \<and> version t' = version t"
proof -
  from assms length_fits [of t] have k: "nat i < length (data t)" by linarith
  from assms have chk: "checkIndex t i ''operator[]'' 0 (String_length t - 1) = Inr ()"
    by (simp add: checkIndex_def)
  let ?t' = "store_ref t (nat i) c"
  have w: "String_assign_at t i c = Inr ?t'"
    using k chk by (simp add: String_assign_at_def String_ref_def)
  have len: "String_length ?t' = String_length t"
    by (simp add: String_length_def store_ref_def)
  have "checkIndex ?t' i ''operator[]'' 0 (String_length ?t' - 1) = Inr ()"
    using assms by (simp add: checkIndex_def len)
  then have r: "String_at ?t' i = Inr c"
    using k by (simp add: String_at_def store_ref_def)
  have "version ?t' = version t" by (simp add: store_ref_def)
  with w r show ?thesis by blast
qed

theorem indexed_write_then_read_witness:
  "(0::int) \<le> 1 \<and> 1 < String_length \<lparr>data = ''abc'', version = 7\<rparr>
   \<and> (\<exists>t'. String_assign_at \<lparr>data = ''abc'', version = 7\<rparr> 1 CHR ''x'' = Inr t'
        \<and> String_at t' 1 = Inr CHR ''x'' \<and> version t' = 7)"
proof -
  have l: "1 < String_length \<lparr>data = ''abc'', version = 7\<rparr>"
    by (simp add: String_length_def int_cast_def)
  have z: "(0::int) \<le> 1" by simp
  show ?thesis
    using indexed_write_then_read [OF z l, of "CHR ''x''"] l by simp
qed

text \<open>
  C5 as stated fails: writing \<open>x\<close> at index 1 of \<open>abc\<close> succeeds and reads back, but
  no outcome of the write has a version counter above the one before it.
\<close>

theorem indexed_write_counterexample:
  "\<not> (\<exists>t'. String_assign_at \<lparr>data = ''abc'', version = 7\<rparr> 1 CHR ''x'' = Inr t'
        \<and> String_at t' 1 = Inr CHR ''x''
        \<and> version \<lparr>data = ''abc'', version = 7\<rparr> < version t')"
  by (simp add: String_assign_at_def String_ref_def checkIndex_def String_length_def
      int_cast_def store_ref_def)

section \<open>Element access of a view\<close>

text \<open>
  C9. For a StringView \<open>v\<close> whose range lies in its storage with the byte after the range
  (as every constructor builds it) and an integer \<open>i\<close>, \<^verbatim>\<open>v[i]\<close> raises the out-of-range
  error exactly when \<open>i < 0\<close> or \<open>i > v.size()\<close>; the index \<open>i = v.size()\<close> is accepted
  and returns the byte one position past the last character of the viewed range.
\<close>

theorem view_index_bounds:
  assumes "vbegin v \<le> vend v" and "vend v < length (storage v)"
    and "vend v - vbegin v < 2 ^ 31"
  shows "((StringView_at v i = error (Msg ''String index out of range.''))
           \<longleftrightarrow> (i < 0 \<or> StringView_size v < i))
         \<and> StringView_at v (StringView_size v) = Inr (storage v ! vend v)"
proof -
  from assms(1,3) have sz: "StringView_size v = int (vend v - vbegin v)"
    using int_cast_nat_small [of "vend v - vbegin v"]
    by (simp add: StringView_size_def of_nat_diff)
  have a: "(StringView_at v i = error (Msg ''String index out of range.''))
           \<longleftrightarrow> (i < 0 \<or> StringView_size v < i)"
    by (simp add: StringView_at_def error_def)
  from assms(1) have "vbegin v + nat (StringView_size v) = vend v"
    by (simp add: sz)
  moreover have "\<not> StringView_size v < 0" by (simp add: sz)
  ultimately have "StringView_at v (StringView_size v) = Inr (storage v ! vend v)"
    using assms(2) by (simp add: StringView_at_def)
  with a show ?thesis by blast
qed

theorem view_index_bounds_witness:
  "StringView_size (StringView_string ''ab'') = 2
   \<and> StringView_at (StringView_string ''ab'') 2 = Inr (CHR 0x00)
   \<and> StringView_at (StringView_string ''ab'') 3 = error (Msg ''String index out of range.'')
   \<and> StringView_at (StringView_string ''ab'') (- 1)
       = error (Msg ''String index out of range.'')"
proof -
  let ?v = "StringView_string ''ab''"
  have h1: "vbegin ?v \<le> vend ?v" by (simp add: StringView_string_def)
  have h2: "vend ?v < length (storage ?v)" by (simp add: StringView_string_def)
  have h3: "vend ?v - vbegin ?v < 2 ^ 31" by (simp add: StringView_string_def)
  have sz: "StringView_size ?v = 2"
    by (simp add: StringView_size_def StringView_string_def int_cast_def)
  have nul: "storage ?v ! vend ?v = CHR 0x00" by (simp add: StringView_string_def)
  show ?thesis
    using view_index_bounds [OF h1 h2 h3, of 3] view_index_bounds [OF h1 h2 h3, of "- 1"]
    by (simp add: sz nul)
qed

section \<open>Split and join\<close>

text \<open>
  C6. For a String \<open>t\<close> and a non-empty delimiter \<open>d\<close> (both shorter than \<open>2^31\<close> bytes):
  if \<open>t\<close> does not begin with \<open>d\<close>, does not end with \<open>d\<close> and nowhere holds two
  copies of \<open>d\<close> side by side, then \<^verbatim>\<open>split\<close> returns and \<^verbatim>\<open>join\<close> of its result with \<open>d\<close>
  has the content of \<open>t\<close>. Splitting \<open>,a,,b,\<close> on \<open>,\<close> yields exactly \<open>a\<close>, \<open>b\<close>, and
  splitting any String on the empty delimiter raises the error.
\<close>

theorem split_join_roundtrip:
  assumes "d \<noteq> []" and "length d < 2 ^ 31" and "length (data t) < 2 ^ 31"
    and "\<not> prefix d (data t)" and "\<not> suffix d (data t)" and "\<not> sublist (d @ d) (data t)"
  shows "(\<exists>v. String_split t d = Some (Inr v) \<and> data (String_join v d) = data t)
       \<and> String_split (String_of '',a,,b,'') '','' = Some (Inr [String_of ''a'', String_of ''b''])
       \<and> String_split u [] = Some (error (Msg ''stringSplit: Delimiter cannot be the empty string.''))"
proof -
  let ?s = "data t"
  from split_loop_pieces [OF assms(1) assms(4-6), of "[]"]
  have "\<exists>r ps. split_loop ?s d [] = Some (r, map String_of ps)
          \<and> ?s = concat (map (\<lambda>p. p @ d) ps) @ r \<and> (?s = [] \<or> r \<noteq> [])"
    by simp
  then obtain r ps where
    loop: "split_loop ?s d [] = Some (r, map String_of ps)"
    and cat: "?s = concat (map (\<lambda>p. p @ d) ps) @ r" and rne: "?s = [] \<or> r \<noteq> []"
    by blast
  from assms(1,2) have dsz: "view_size d \<noteq> 0"
    by (simp add: view_size_def int_cast_nat_small)
  from arg_cong [OF cat, of length] have "length r \<le> length ?s" by simp
  with assms(3) have "length r < 2 ^ 31" by simp
  then have rsz: "int_cast (int (length r)) = int (length r)" by (rule int_cast_nat_small)
  have a: "\<exists>v. String_split t d = Some (Inr v) \<and> data (String_join v d) = ?s"
  proof (cases "r = []")
    case True
    with rne have e: "?s = []" by simp
    with cat assms(1) have "ps = []" by (cases ps) auto
    with loop True dsz have "String_split t d = Some (Inr [])"
      by (simp add: String_split_def stringSplit_def int_cast_def)
    moreover have "data (String_join [] d) = ?s"
      by (simp add: String_join_def String_empty_def e)
    ultimately show ?thesis by blast
  next
    case False
    with loop dsz rsz have "String_split t d = Some (Inr (map String_of (ps @ [r])))"
      by (simp add: String_split_def stringSplit_def)
    moreover have "data (String_join (map String_of (ps @ [r])) d)
                     = concat (map (\<lambda>p. p @ d) ps) @ r"
      unfolding String_join_def join_loop_data by (simp add: String_empty_def)
    moreover note cat
    ultimately show ?thesis by metis
  qed
  have b: "String_split (String_of '',a,,b,'') '','' = Some (Inr [String_of ''a'', String_of ''b''])"
    by code_simp
  have c: "String_split u [] = Some (error (Msg ''stringSplit: Delimiter cannot be the empty string.''))"
    by (simp add: String_split_def stringSplit_def view_size_def int_cast_def)
  from a b c show ?thesis by blast
qed

theorem split_join_roundtrip_witness:
  "\<not> prefix '','' ''a,b,c'' \<and> \<not> suffix '','' ''a,b,c'' \<and> \<not> sublist ('','' @ '','') ''a,b,c''
   \<and> String_split (String_of ''a,b,c'') '','' = Some (Inr [String_of ''a'', String_of ''b'', String_of ''c''])
   \<and> data (String_join [String_of ''a'', String_of ''b'', String_of ''c''] '','') = ''a,b,c''"
proof -
  have h1: "'','' \<noteq> []" by simp
  have h2: "length '','' < 2 ^ 31" by simp
  have h3: "length (data (String_of ''a,b,c'')) < 2 ^ 31" by (simp add: String_of_def)
  have h4: "\<not> prefix '','' (data (String_of ''a,b,c''))" by (simp add: String_of_def)
  have h5: "\<not> suffix '','' (data (String_of ''a,b,c''))" by code_simp
  have h6: "\<not> sublist ('','' @ '','') (data (String_of ''a,b,c''))" by code_simp
  have v: "String_split (String_of ''a,b,c'') '','' = Some (Inr [String_of ''a'', String_of ''b'', String_of ''c''])"
    by code_simp
  from split_join_roundtrip [OF h1 h2 h3 h4 h5 h6] v h4 h5 h6
  show ?thesis by (simp add: String_of_def)
qed

section \<open>Replace all\<close>

text \<open>
  C8. \<^verbatim>\<open>replaceAll\<close> with an empty target raises the error "Cannot replace the empty
  string"; with target \<open>a\<close> and replacement \<open>aa\<close> on \<open>banana\<close> it returns, and leaves
  the String equal to \<open>baanaanaa\<close> (after three substitutions, each updating the version).
\<close>

theorem replaceAll_banana:
  "String_replaceAll s [] w
     = Some (error (Msg ''String::replaceAll: Cannot replace the empty string.''))
   \<and> String_replaceAll \<lparr>data = ''banana'', version = v\<rparr> ''a'' ''aa''
     = Some (Inr \<lparr>data = ''baanaanaa'', version = update (update (update v))\<rparr>)"
proof -
  have "String_replaceAll s [] w
          = Some (error (Msg ''String::replaceAll: Cannot replace the empty string.''))"
    by (simp add: String_replaceAll_def view_size_def int_cast_def)
  moreover have "String_replaceAll \<lparr>data = ''banana'', version = v\<rparr> ''a'' ''aa''
          = Some (Inr \<lparr>data = ''baanaanaa'', version = update (update (update v))\<rparr>)"
    by code_simp
  ultimately show ?thesis by simp
qed

section \<open>Relational operators with the String on the right\<close>

text \<open>
  C4, at the text \<open>a\<close> and the String \<open>b\<close>. The claim equates \<open>x > s\<close> with \<open>s < x\<close>.
  \<open>s < x\<close> is the member \<^verbatim>\<open>operator<\<close> and is false here. \<open>x > s\<close> is the global
  \<^verbatim>\<open>operator>\<close>, which returns \<^verbatim>\<open>rhs > lhs\<close>, the same expression as the global
  \<^verbatim>\<open>operator<\<close>, where the pattern of its siblings asks for \<^verbatim>\<open>rhs < lhs\<close>; the member
  \<^verbatim>\<open>operator>\<close> it calls does not return, so \<open>x > s\<close> has no value at all.
\<close>

theorem text_greater_than_String:
  "global_greater ''a'' (String_of ''b'') = None
   \<and> global_less ''a'' (String_of ''b'') = None
   \<and> String_less sg (String_of ''b'') ''a'' = False"
  by (simp add: relational_never_return String_less_def String_of_def char_to_int_def)

section \<open>URL encoding of bytes from 0x80\<close>

text \<open>
  C3, at the one-byte String 0x80 where \<^verbatim>\<open>char\<close> is signed: \<^verbatim>\<open>int(c)\<close> is -128, which
  the stream prints in hex as the eight digits of its 32-bit two's complement, so the
  byte is encoded as \<open>%FFFFFF80\<close>, not as \<open>%80\<close>. (Where \<^verbatim>\<open>char\<close> is unsigned, and for
  every byte below 0x80, \<open>urlEncoded_two_digits\<close> gives the two digits.)
\<close>

theorem urlEncoded_high_byte:
  "String_urlEncoded True (String_of [CHR 0x80]) = String_of ''%FFFFFF80''
   \<and> String_urlEncoded False (String_of [CHR 0x80]) = String_of ''%80''"
  by code_simp

section \<open>Conversion with a radix\<close>

text \<open>
  C2, at the String \<open>12xy\<close>, the type \<^verbatim>\<open>int\<close> and radix 10: \<^verbatim>\<open>to<int>\<close> returns 12. The
  characters \<open>xy\<close> after the number are never looked at, since \<^verbatim>\<open>std::stoll\<close> is called
  with \<^verbatim>\<open>nullptr\<close> for the end position.
\<close>

theorem to_radix_trailing_characters:
  "String_to derived (SignedT 32) (String_of ''12xy'') 10 = Inr 12"
  by code_simp

text \<open>
  C7. For every String \<open>s\<close> and integral type \<open>T\<close>: with a radix outside 2..36,
  \<^verbatim>\<open>is<T>(s, r)\<close> raises the radix error; with a radix inside, it raises nothing and
  returns a boolean, which is true exactly when \<^verbatim>\<open>to<T>(s, r)\<close> returns a value and false
  exactly when \<^verbatim>\<open>to<T>(s, r)\<close> raises (always an \<^verbatim>\<open>ErrorException\<close>).
\<close>

theorem is_radix_probe:
  "(radix < 2 \<or> 36 < radix \<longrightarrow>
      String_is derived T s radix
        = error (Msg ''String::is: Radix must be between 2 and 36, inclusive.''))
   \<and> (2 \<le> radix \<and> radix \<le> 36 \<longrightarrow>
      (\<exists>b. String_is derived T s radix = Inr b
         \<and> (b \<longleftrightarrow> (\<exists>v. String_to derived T s radix = Inr v))
         \<and> (\<not> b \<longleftrightarrow> (\<exists>m. String_to derived T s radix = Inl (ErrorException m)))))"
proof (intro conjI impI)
  assume "radix < 2 \<or> 36 < radix"
  then show "String_is derived T s radix
        = error (Msg ''String::is: Radix must be between 2 and 36, inclusive.'')"
    by (auto simp: String_is_def)
next
  assume r: "2 \<le> radix \<and> radix \<le> 36"
  show "\<exists>b. String_is derived T s radix = Inr b
         \<and> (b \<longleftrightarrow> (\<exists>v. String_to derived T s radix = Inr v))
         \<and> (\<not> b \<longleftrightarrow> (\<exists>m. String_to derived T s radix = Inl (ErrorException m)))"
  proof (cases "String_to derived T s radix")
    case (Inl e)
    from String_to_raises [OF Inl] obtain m where "e = ErrorException m" by blast
    with Inl r show ?thesis by (intro exI [of _ False]) (simp add: String_is_def)
  next
    case (Inr v)
    with r show ?thesis by (intro exI [of _ True]) (simp add: String_is_def)
  qed
qed

theorem is_radix_probe_witness:
  "String_is False (SignedT 32) (String_of ''12xy'') 10 = Inr True
   \<and> String_is False (SignedT 32) (String_of ''xy'') 10 = Inr False
   \<and> String_is False (SignedT 32) (String_of ''12'') 37
       = error (Msg ''String::is: Radix must be between 2 and 36, inclusive.'')"
proof -
  have a: "String_to False (SignedT 32) (String_of ''12xy'') 10 = Inr 12" by code_simp
  have b: "String_to False (SignedT 32) (String_of ''xy'') 10 = error conversion_failed"
    by code_simp
  from is_radix_probe [of 10 False "SignedT 32" "String_of ''12xy''"] a
  have 1: "String_is False (SignedT 32) (String_of ''12xy'') 10 = Inr True" by auto
  from is_radix_probe [of 10 False "SignedT 32" "String_of ''xy''"] b
  have 2: "String_is False (SignedT 32) (String_of ''xy'') 10 = Inr False"
    by (auto simp: error_def)
  from is_radix_probe [of 37 False "SignedT 32" "String_of ''12''"]
  have 3: "String_is False (SignedT 32) (String_of ''12'') 37
       = error (Msg ''String::is: Radix must be between 2 and 36, inclusive.'')" by simp
  from 1 2 3 show ?thesis by simp
qed

end
